theory Spec2Isabelle
  imports Complex_Main
begin

section \<open>Python values and errors\<close>

text \<open>
  The functions of \<^verbatim>\<open>earth_distance/utils.py\<close> work on Python floats. A float is
  modelled as a \<^typ>\<open>real\<close>: the arithmetic of the model is exact, the rounding of
  IEEE doubles is not part of it. Every \<^verbatim>\<open>raise\<close> of the source, and every exception
  of a Python builtin that an input can reach, is a value of \<open>error\<close>.
\<close>

datatype error =
    ZeroDivisionError
    \<comment> \<open>\<^verbatim>\<open>x / 0\<close>\<close>
  | UnknownStyle string
    \<comment> \<open>\<^verbatim>\<open>ValueError("Unknown style type `%s'" % style)\<close>\<close>
  | UnknownFormat string
    \<comment> \<open>\<^verbatim>\<open>ValueError("Unknown format type `%s'" % format)\<close>\<close>
  | IncorrectFormatString
    \<comment> \<open>\<^verbatim>\<open>ValueError("Incorrect format for string")\<close>\<close>
  | IncorrectFormatLatitude string
    \<comment> \<open>\<^verbatim>\<open>ValueError("Incorrect format for latitude `%s'" % latitude)\<close>\<close>
  | IncorrectFormatLongitude string
    \<comment> \<open>\<^verbatim>\<open>ValueError("Incorrect format for longitude `%s'" % longitude)\<close>\<close>
  | InvalidFloatLiteral string
    \<comment> \<open>the \<^verbatim>\<open>ValueError\<close> of \<^verbatim>\<open>float(s)\<close> on a string that is not a number\<close>
  | InvalidIntLiteral string
    \<comment> \<open>the \<^verbatim>\<open>ValueError\<close> of \<^verbatim>\<open>int(s)\<close> on a string that is not a number\<close>
  | LocatorLength string
    \<comment> \<open>\<^verbatim>\<open>ValueError("Locator must be 4, 6 or 8 characters long `%s'" % locator)\<close>\<close>
  | InvalidLocatorValues
    \<comment> \<open>\<^verbatim>\<open>ValueError("Invalid values in locator `%s'" % locator)\<close>\<close>
  | UnsupportedPrecision string
    \<comment> \<open>\<^verbatim>\<open>ValueError("Unsupported precision value `%s'" % precision)\<close>\<close>
  | InvalidLatitude real
    \<comment> \<open>\<^verbatim>\<open>ValueError("Invalid latitude value `%f'" % latitude)\<close>\<close>
  | InvalidLongitude real
    \<comment> \<open>\<^verbatim>\<open>ValueError("Invalid longitude value `%f'" % longitude)\<close>\<close>
  | UnknownMode string
    \<comment> \<open>\<^verbatim>\<open>ValueError("Unknown mode value `%s'" % mode)\<close>\<close>
  | KeyError
    \<comment> \<open>\<^verbatim>\<open>ZENITH[zenith]\<close> on a key that is not in the table\<close>
  | TimeOutOfRange int int
    \<comment> \<open>the \<^verbatim>\<open>ValueError\<close> of \<^verbatim>\<open>datetime.time(hour, minute)\<close>\<close>
  | FormatArguments
    \<comment> \<open>the \<^verbatim>\<open>TypeError\<close> of \<^verbatim>\<open>%\<close> when the tuple does not fit the format string\<close>

definition err_bind :: "error + 'a \<Rightarrow> ('a \<Rightarrow> error + 'b) \<Rightarrow> error + 'b" where
  "err_bind r f = (case r of Inl e \<Rightarrow> Inl e | Inr v \<Rightarrow> f v)"

text \<open>\<^verbatim>\<open>int(x)\<close> on a float truncates towards zero.\<close>

definition py_int :: "real \<Rightarrow> int" where
  "py_int x = (if 0 \<le> x then \<lfloor>x\<rfloor> else \<lceil>x\<rceil>)"

text \<open>True division (\<^verbatim>\<open>from __future__ import division\<close>) raises on a zero divisor.\<close>

definition py_div :: "real \<Rightarrow> real \<Rightarrow> error + real" where
  "py_div x y = (if y = 0 then Inl ZeroDivisionError else Inr (x / y))"

text \<open>
  \<^verbatim>\<open>x % y\<close> and \<^verbatim>\<open>divmod(x, y)\<close> on floats, for a divisor that is not zero: the
  quotient is rounded down, the remainder has the sign of the divisor.
\<close>

definition py_mod :: "real \<Rightarrow> real \<Rightarrow> real" where
  "py_mod x y = x - y * of_int \<lfloor>x / y\<rfloor>"

definition py_divmod :: "real \<Rightarrow> real \<Rightarrow> real \<times> real" where
  "py_divmod x y = (of_int \<lfloor>x / y\<rfloor>, py_mod x y)"

section \<open>Degrees, minutes and seconds\<close>

text \<open>
  \<^verbatim>\<open>to_dms\<close> returns a triple of integers for the style \<^verbatim>\<open>"dms"\<close> and a pair of an
  integer and a float for the style \<^verbatim>\<open>"dm"\<close>.
\<close>

datatype dms = DMS int int int | DM int real

definition to_dms :: "real \<Rightarrow> string \<Rightarrow> error + dms" where
  "to_dms angle style =
     err_bind (py_div angle \<bar>angle\<bar>) (\<lambda>q.
       let sign = py_int q;
           angle' = \<bar>angle\<bar> * 3600;
           (minutes, seconds) = py_divmod angle' 60;
           (degrees, minutes') = py_divmod minutes 60
       in if style = ''dms'' then
            Inr (DMS (sign * py_int degrees) (sign * py_int minutes') (sign * py_int seconds))
          else if style = ''dm'' then
            Inr (DM (sign * py_int degrees)
                    (of_int sign * (of_int (py_int minutes') + of_int (py_int seconds) / 60)))
          else Inl (UnknownStyle style))"

definition to_dd :: "real \<Rightarrow> real \<Rightarrow> real \<Rightarrow> real" where
  "to_dd degrees minutes seconds = degrees + minutes / 60 + seconds / 3600"

section \<open>Characters and decimal strings\<close>

text \<open>
  \<^verbatim>\<open>ord\<close>, \<^verbatim>\<open>chr\<close> (for a code in \<open>0..255\<close>, which is where every call of the
  source is), \<^verbatim>\<open>str.lower\<close> on one character and \<^verbatim>\<open>str\<close> on an integer.
\<close>

definition py_ord :: "char \<Rightarrow> int" where
  "py_ord c = of_char c"

definition py_chr :: "int \<Rightarrow> char" where
  "py_chr n = char_of n"

definition py_lower :: "char \<Rightarrow> char" where
  "py_lower c = (if 65 \<le> py_ord c \<and> py_ord c \<le> 90 then py_chr (py_ord c + 32) else c)"

fun str_nat :: "nat \<Rightarrow> string" where
  "str_nat n =
     (if n < 10 then [py_chr (48 + int n)]
      else str_nat (n div 10) @ [py_chr (48 + int (n mod 10))])"

declare str_nat.simps [simp del]


text \<open>
  \<^verbatim>\<open>int(c)\<close> on a string of one character: a decimal digit gives its value, any
  other character raises \<^verbatim>\<open>ValueError\<close>.
\<close>

definition py_int_char :: "char \<Rightarrow> error + int" where
  "py_int_char c =
     (if 48 \<le> py_ord c \<and> py_ord c \<le> 57 then Inr (py_ord c - 48)
      else Inl (InvalidIntLiteral [c]))"

section \<open>Maidenhead locators\<close>

definition LONGITUDE_FIELD :: real where "LONGITUDE_FIELD = 20"
definition LATITUDE_FIELD :: real where "LATITUDE_FIELD = 10"
definition LONGITUDE_SQUARE :: real where "LONGITUDE_SQUARE = LONGITUDE_FIELD / 10"
definition LATITUDE_SQUARE :: real where "LATITUDE_SQUARE = LATITUDE_FIELD / 10"
definition LONGITUDE_SUBSQUARE :: real where "LONGITUDE_SUBSQUARE = LONGITUDE_SQUARE / 24"
definition LATITUDE_SUBSQUARE :: real where "LATITUDE_SUBSQUARE = LATITUDE_SQUARE / 24"
definition LONGITUDE_EXTSQUARE :: real where "LONGITUDE_EXTSQUARE = LONGITUDE_SUBSQUARE / 10"
definition LATITUDE_EXTSQUARE :: real where "LATITUDE_EXTSQUARE = LATITUDE_SUBSQUARE / 10"

text \<open>
  \<^verbatim>\<open>from_grid_locator\<close> overwrites the characters of the locator by their numeric
  values, \<open>l0\<close> to \<open>l7\<close> here. The values of the characters that a short locator does
  not have are never read; the model gives them the value 0. The result is the pair
  (latitude, longitude).
\<close>

definition from_grid_locator :: "string \<Rightarrow> error + (real \<times> real)" where
  "from_grid_locator locator =
     (let n = length locator in
      if n \<notin> {4, 6, 8} then Inl (LocatorLength locator)
      else
        let l0 = py_ord (locator ! 0) - 65;
            l1 = py_ord (locator ! 1) - 65
        in
        err_bind (py_int_char (locator ! 2)) (\<lambda>l2.
        err_bind (py_int_char (locator ! 3)) (\<lambda>l3.
        let l4 = (if 6 \<le> n then py_ord (py_lower (locator ! 4)) - 97 else 0);
            l5 = (if 6 \<le> n then py_ord (py_lower (locator ! 5)) - 97 else 0)
        in
        err_bind (if n = 8 then py_int_char (locator ! 6) else Inr 0) (\<lambda>l6.
        err_bind (if n = 8 then py_int_char (locator ! 7) else Inr 0) (\<lambda>l7.
        if \<not> (0 \<le> l0 \<and> l0 \<le> 17) \<or> \<not> (0 \<le> l1 \<and> l1 \<le> 17)
           \<or> \<not> (0 \<le> l2 \<and> l2 \<le> 9) \<or> \<not> (0 \<le> l3 \<and> l3 \<le> 9)
        then Inl InvalidLocatorValues
        else if 6 \<le> n \<and> (\<not> (0 \<le> l4 \<and> l4 \<le> 23) \<or> \<not> (0 \<le> l5 \<and> l5 \<le> 23))
        then Inl InvalidLocatorValues
        else if n = 8 \<and> (\<not> (0 \<le> l6 \<and> l6 \<le> 9) \<or> \<not> (0 \<le> l7 \<and> l7 \<le> 9))
        then Inl InvalidLocatorValues
        else
          let longitude = LONGITUDE_FIELD * of_int l0 + LONGITUDE_SQUARE * of_int l2;
              latitude = LATITUDE_FIELD * of_int l1 + LATITUDE_SQUARE * of_int l3;
              longitude = (if 6 \<le> n then longitude + LONGITUDE_SUBSQUARE * of_int l4
                           else longitude);
              latitude = (if 6 \<le> n then latitude + LATITUDE_SUBSQUARE * of_int l5
                          else latitude);
              longitude = (if n = 8
                           then longitude + (LONGITUDE_EXTSQUARE * of_int l6
                                             + LONGITUDE_EXTSQUARE / 2)
                           else longitude + LONGITUDE_EXTSQUARE * 5);
              latitude = (if n = 8
                          then latitude + (LATITUDE_EXTSQUARE * of_int l7
                                           + LATITUDE_EXTSQUARE / 2)
                          else latitude + LATITUDE_EXTSQUARE * 5)
          in Inr (latitude - 90, longitude - 180))))))"


section \<open>ISO 6709 strings\<close>

text \<open>
  The pattern of \<^verbatim>\<open>from_iso6709\<close> is
  \<^verbatim>\<open>^([-+][\d\.]+)([-+][\d\.]+)([+-][\d\.]+)?/$\<close>. A group is a sign followed by
  a run of digits and points that is not empty. A sign and \<^verbatim>\<open>/\<close> are neither a digit
  nor a point, so the run of a group that takes part in a match is the longest one, and
  the third group is present exactly when a sign follows the second. \<^verbatim>\<open>$\<close> matches
  at the end of the string and before a newline that ends the string.
\<close>

definition is_sign :: "char \<Rightarrow> bool" where
  "is_sign c = (c = CHR ''-'' \<or> c = CHR ''+'')"

definition is_digit :: "char \<Rightarrow> bool" where
  "is_digit c = (48 \<le> py_ord c \<and> py_ord c \<le> 57)"

definition is_digit_or_point :: "char \<Rightarrow> bool" where
  "is_digit_or_point c = (is_digit c \<or> c = CHR ''.'')"

definition match_group :: "string \<Rightarrow> (string \<times> string) option" where
  "match_group s =
     (case s of
        [] \<Rightarrow> None
      | c # rest \<Rightarrow>
          if is_sign c \<and> takeWhile is_digit_or_point rest \<noteq> []
          then Some (c # takeWhile is_digit_or_point rest, dropWhile is_digit_or_point rest)
          else None)"

definition at_end :: "string \<Rightarrow> bool" where
  "at_end s = (s = ''/'' \<or> s = [CHR ''/'', CHR 0x0A])"

definition iso6709_match :: "string \<Rightarrow> (string \<times> string \<times> string option) option" where
  "iso6709_match coordinates =
     (case match_group coordinates of
        None \<Rightarrow> None
      | Some (latitude, rest) \<Rightarrow>
          (case match_group rest of
             None \<Rightarrow> None
           | Some (longitude, rest') \<Rightarrow>
               (case match_group rest' of
                  Some (altitude, rest'') \<Rightarrow>
                    if at_end rest'' then Some (latitude, longitude, Some altitude) else None
                | None \<Rightarrow>
                    if at_end rest' then Some (latitude, longitude, None) else None)))"

text \<open>
  \<^verbatim>\<open>float(s)\<close> for a string made of an optional sign, digits and points, which are
  the only strings that \<^verbatim>\<open>from_iso6709\<close> passes to it: the string is a number when it
  has at most one point and at least one digit. The value is the decimal number itself.
\<close>

definition digits_value :: "string \<Rightarrow> nat" where
  "digits_value ds = foldl (\<lambda>a c. 10 * a + nat (py_ord c - 48)) 0 ds"

definition py_float :: "string \<Rightarrow> error + real" where
  "py_float s =
     (let body = (case s of c # r \<Rightarrow> if is_sign c then r else s | [] \<Rightarrow> s);
          negative = (case s of c # r \<Rightarrow> c = CHR ''-'' | [] \<Rightarrow> False);
          whole = takeWhile is_digit body;
          rest = dropWhile is_digit body;
          fraction = (case rest of c # r \<Rightarrow> r | [] \<Rightarrow> [])
      in if (rest \<noteq> [] \<and> (hd rest \<noteq> CHR ''.'' \<or> \<not> list_all is_digit fraction))
            \<or> (whole = [] \<and> fraction = [])
         then Inl (InvalidFloatLiteral s)
         else
           let v = real (digits_value whole)
                   + real (digits_value fraction) / 10 ^ length fraction
           in Inr (if negative then - v else v))"

text \<open>
  \<^verbatim>\<open>from_iso6709\<close>: \<open>latitude_field\<close> and \<open>longitude_field\<close> are its two chains of
  \<^verbatim>\<open>if\<close>/\<^verbatim>\<open>elif\<close> on the length of the text before the first point;
  \<^verbatim>\<open>s.split(".")[0]\<close> is that text.
\<close>

definition split_point_head :: "string \<Rightarrow> string" where
  "split_point_head s = takeWhile (\<lambda>c. c \<noteq> CHR ''.'') s"

definition latitude_field :: "string \<Rightarrow> error + real" where
  "latitude_field latitude =
     (let latitude_head = length (split_point_head latitude) in
      if latitude_head = 3 then py_float latitude
      else if latitude_head = 5 then
        err_bind (py_float (take 3 latitude)) (\<lambda>d.
        err_bind (py_float (drop 3 latitude)) (\<lambda>m. Inr (d + (m / 60))))
      else if latitude_head = 7 then
        err_bind (py_float (take 3 latitude)) (\<lambda>d.
        err_bind (py_float (take 2 (drop 3 latitude))) (\<lambda>m.
        err_bind (py_float (drop 5 latitude)) (\<lambda>s. Inr (d + (m / 60) + (s / 3600)))))
      else Inl (IncorrectFormatLatitude latitude))"

definition longitude_field :: "string \<Rightarrow> error + real" where
  "longitude_field longitude =
     (let longitude_head = length (split_point_head longitude) in
      if longitude_head = 4 then py_float longitude
      else if longitude_head = 6 then
        err_bind (py_float (take 4 longitude)) (\<lambda>d.
        err_bind (py_float (drop 4 longitude)) (\<lambda>m. Inr (d + (m / 60))))
      else if longitude_head = 8 then
        err_bind (py_float (take 4 longitude)) (\<lambda>d.
        err_bind (py_float (take 2 (drop 4 longitude))) (\<lambda>m.
        err_bind (py_float (drop 6 longitude)) (\<lambda>s. Inr (d + (m / 60) + (s / 3600)))))
      else Inl (IncorrectFormatLongitude longitude))"

definition altitude_field :: "string option \<Rightarrow> error + real option" where
  "altitude_field altitude =
     (case altitude of
        None \<Rightarrow> Inr None
      | Some a \<Rightarrow> err_bind (py_float a) (\<lambda>v. Inr (Some v)))"

definition from_iso6709 :: "string \<Rightarrow> error + (real \<times> real \<times> real option)" where
  "from_iso6709 coordinates =
     (case iso6709_match coordinates of
        None \<Rightarrow> Inl IncorrectFormatString
      | Some (latitude, longitude, altitude) \<Rightarrow>
          err_bind (latitude_field latitude) (\<lambda>lat.
          err_bind (longitude_field longitude) (\<lambda>lon.
          err_bind (altitude_field altitude) (\<lambda>alt.
          Inr (lat, lon, alt)))))"

text \<open>
  The conversions of the \<^verbatim>\<open>%\<close> operator that \<^verbatim>\<open>to_iso6709\<close> uses. \<open>format_i\<close> is
  \<^verbatim>\<open>%0<width>i\<close> on an integer, with the flag \<^verbatim>\<open>+\<close> when \<open>show_plus\<close> holds; a float
  argument is truncated by \<^verbatim>\<open>int\<close> before. \<open>format_f\<close> is \<^verbatim>\<open>%+0<width>.<precision>f\<close>:
  the value is rounded to the precision, a tie to the even digit, and the sign is that
  of the value before rounding.
\<close>

definition zero_pad :: "nat \<Rightarrow> string \<Rightarrow> string \<Rightarrow> string" where
  "zero_pad width sign digits =
     sign @ replicate (width - length sign - length digits) CHR ''0'' @ digits"

definition format_i :: "bool \<Rightarrow> nat \<Rightarrow> int \<Rightarrow> string" where
  "format_i show_plus width v =
     zero_pad width (if v < 0 then ''-'' else if show_plus then ''+'' else [])
       (str_nat (nat \<bar>v\<bar>))"

definition round_half_even :: "real \<Rightarrow> int" where
  "round_half_even x =
     (if x - of_int \<lfloor>x\<rfloor> < 1 / 2 then \<lfloor>x\<rfloor>
      else if 1 / 2 < x - of_int \<lfloor>x\<rfloor> then \<lfloor>x\<rfloor> + 1
      else if even \<lfloor>x\<rfloor> then \<lfloor>x\<rfloor> else \<lfloor>x\<rfloor> + 1)"

definition format_f :: "nat \<Rightarrow> nat \<Rightarrow> real \<Rightarrow> string" where
  "format_f width precision v =
     (let scaled = nat (round_half_even (\<bar>v\<bar> * 10 ^ precision));
          whole = str_nat (scaled div 10 ^ precision);
          fraction = str_nat (scaled mod 10 ^ precision);
          digits = (if precision = 0 then whole
                    else whole @ ''.'' @ replicate (precision - length fraction) CHR ''0''
                         @ fraction)
      in zero_pad width (if v < 0 then ''-'' else ''+'') digits)"

text \<open>
  \<^verbatim>\<open>to_iso6709\<close>. \<open>coordinates_text\<close> is its chain of \<^verbatim>\<open>if\<close>/\<^verbatim>\<open>elif\<close> on the
  format, which builds the text of the latitude and the longitude. The altitude is
  \<open>None\<close> or a float; \<^verbatim>\<open>if altitude\<close> holds for a float that is not zero. The
  precision is a natural number.
\<close>

definition coordinates_text :: "real \<Rightarrow> real \<Rightarrow> string \<Rightarrow> nat \<Rightarrow> error + string" where
  "coordinates_text latitude longitude format precision =
     (if format = ''d'' then
        Inr (format_i True 3 (py_int latitude) @ format_i True 4 (py_int longitude))
      else if format = ''dd'' then
        Inr (format_f (precision + 4) precision latitude
             @ format_f (precision + 5) precision longitude)
      else if format = ''dm'' then
        err_bind (to_dms latitude ''dm'') (\<lambda>lat.
        err_bind (case lat of DM d m \<Rightarrow> Inr (format_i True 3 d @ format_i False 2 (py_int m))
                  | DMS d m s \<Rightarrow> Inl FormatArguments) (\<lambda>text.
        err_bind (to_dms longitude ''dm'') (\<lambda>lon.
        case lon of DM d m \<Rightarrow> Inr (text @ format_i True 4 d @ format_i False 2 (py_int m))
        | DMS d m s \<Rightarrow> Inl FormatArguments)))
      else if format = ''dms'' then
        err_bind (to_dms latitude ''dms'') (\<lambda>lat.
        err_bind (case lat of DMS d m s \<Rightarrow>
                    Inr (format_i True 3 d @ format_i False 2 m @ format_i False 2 s)
                  | DM d m \<Rightarrow> Inl FormatArguments) (\<lambda>text.
        err_bind (to_dms longitude ''dms'') (\<lambda>lon.
        case lon of DMS d m s \<Rightarrow>
          Inr (text @ format_i True 4 d @ format_i False 2 m @ format_i False 2 s)
        | DM d m \<Rightarrow> Inl FormatArguments)))
      else Inl (UnknownFormat format))"

definition to_iso6709 ::
  "real \<Rightarrow> real \<Rightarrow> real option \<Rightarrow> string \<Rightarrow> nat \<Rightarrow> error + string" where
  "to_iso6709 latitude longitude altitude format precision =
     err_bind (coordinates_text latitude longitude format precision) (\<lambda>text.
       let truthy = (case altitude of None \<Rightarrow> False | Some a \<Rightarrow> a \<noteq> 0);
           a = (case altitude of None \<Rightarrow> 0 | Some a \<Rightarrow> a);
           text = (if truthy \<and> of_int (py_int a) = a then text @ format_i True 0 (py_int a)
                   else if truthy then text @ format_f 0 3 a
                   else text)
       in Inr (text @ ''/''))"

section \<open>Sunrise and sunset\<close>

text \<open>
  A \<^verbatim>\<open>datetime.date\<close> is a year, a month and a day. The source takes the number of
  days from the 31st of December of the year before to the date, which is the day of
  the year; \<open>day_of_year\<close> computes it as the \<^verbatim>\<open>datetime\<close> module does, with the
  leap years of the Gregorian calendar.
\<close>

record date =
  year :: int
  month :: int
  day :: int

definition is_leap :: "int \<Rightarrow> bool" where
  "is_leap y = (y mod 4 = 0 \<and> (y mod 100 \<noteq> 0 \<or> y mod 400 = 0))"

definition days_before_month :: "int \<Rightarrow> int \<Rightarrow> int" where
  "days_before_month y m =
     sum_list (take (nat (m - 1))
       [31, if is_leap y then 29 else 28, 31, 30, 31, 30, 31, 31, 30, 31, 30, 31])"

definition day_of_year :: "date \<Rightarrow> int" where
  "day_of_year d = days_before_month (year d) (month d) + day d"

text \<open>
  The table \<^verbatim>\<open>ZENITH\<close>, in degrees; its keys are \<^verbatim>\<open>None\<close> and three strings.
  Any other key raises \<^verbatim>\<open>KeyError\<close>.
\<close>

definition ZENITH :: "string option \<Rightarrow> real option" where
  "ZENITH key =
     (if key = None then Some (- 50 / 60)
      else if key = Some ''civil'' then Some (- 6)
      else if key = Some ''nautical'' then Some (- 12)
      else if key = Some ''astronomical'' then Some (- 18)
      else None)"

definition radians :: "real \<Rightarrow> real" where
  "radians x = x * pi / 180"

definition degrees :: "real \<Rightarrow> real" where
  "degrees x = x * 180 / pi"

text \<open>\<^verbatim>\<open>datetime.time(hour, minute)\<close> raises \<^verbatim>\<open>ValueError\<close> outside 0..23 and 0..59.\<close>

definition datetime_time :: "int \<Rightarrow> int \<Rightarrow> error + (int \<times> int)" where
  "datetime_time hour minute =
     (if 0 \<le> hour \<and> hour \<le> 23 \<and> 0 \<le> minute \<and> minute \<le> 59 then Inr (hour, minute)
      else Inl (TimeOutOfRange hour minute))"

text \<open>
  The last statements of \<^verbatim>\<open>sun_rise_set\<close> (from \<^verbatim>\<open>hour = int(localT)\<close> to the
  \<^verbatim>\<open>return\<close>), which turn the local time in hours into a \<^verbatim>\<open>datetime.time\<close>.
\<close>

definition hour_minute :: "real \<Rightarrow> error + (int \<times> int)" where
  "hour_minute localT =
     (let hour = py_int localT;
          minute = (if hour = 0 then py_int (60 * localT)
                    else py_int (60 * py_mod localT (of_int hour)));
          hour = (if hour < 0 then hour + 23 else hour);
          minute = (if minute < 0 then minute + 60 else minute)
      in datetime_time hour minute)"

text \<open>
  \<^verbatim>\<open>sun_rise_set\<close>. The result is \<open>Inr None\<close> when the event does not occur on the
  date, \<open>Inr (Some (hour, minute))\<close> when it does. The trigonometric functions are
  those of the reals. \<^verbatim>\<open>math.asin\<close> is applied to a value between -0.39782 and
  0.39782 and \<^verbatim>\<open>math.acos\<close> to a value between -1 and 1, so neither raises.
\<close>

definition sun_rise_set ::
  "real \<Rightarrow> real \<Rightarrow> date \<Rightarrow> string \<Rightarrow> int \<Rightarrow> string option \<Rightarrow> error + (int \<times> int) option" where
  "sun_rise_set latitude longitude date mode timezone zenith =
     (case ZENITH zenith of
        None \<Rightarrow> Inl KeyError
      | Some zenith \<Rightarrow>
        let n = of_int (day_of_year date);
            lngHour = longitude / 15
        in
        if mode \<noteq> ''rise'' \<and> mode \<noteq> ''set'' then Inl (UnknownMode mode)
        else
          let t = (if mode = ''rise'' then n + ((6 - lngHour) / 24)
                   else n + ((18 - lngHour) / 24));
              m = (9856 / 10000 * t) - 3289 / 1000;
              l = m + 1916 / 1000 * sin (radians m) + 20 / 1000 * sin (2 * radians m)
                  + 282634 / 1000;
              l = py_mod \<bar>l\<bar> 360;
              ra = degrees (arctan (91764 / 100000 * tan (radians l)));
              lQuandrant = of_int \<lfloor>l / 90\<rfloor> * 90;
              raQuandrant = of_int \<lfloor>ra / 90\<rfloor> * 90;
              ra = ra + (lQuandrant - raQuandrant);
              ra = ra / 15;
              sinDec = 39782 / 100000 * sin (radians l);
              cosDec = cos (arcsin sinDec)
          in
          err_bind (py_div (radians zenith - (sinDec * sin (radians latitude)))
                           (cosDec * cos (radians latitude))) (\<lambda>cosH.
          if cosH > 1 then Inr None
          else if cosH < - 1 then Inr None
          else
            let h = (if mode = ''rise'' then 360 - degrees (arccos cosH)
                     else degrees (arccos cosH));
                h = h / 15;
                T = h + ra - (6571 / 100000 * t) - 6622 / 1000;
                UT = T - lngHour;
                localT = UT + of_int timezone / 60
            in err_bind (hour_minute localT) (\<lambda>time. Inr (Some time))))"

definition sun_events ::
  "real \<Rightarrow> real \<Rightarrow> date \<Rightarrow> int \<Rightarrow> string option
     \<Rightarrow> error + ((int \<times> int) option \<times> (int \<times> int) option)" where
  "sun_events latitude longitude date timezone zenith =
     err_bind (sun_rise_set latitude longitude date ''rise'' timezone zenith) (\<lambda>rise.
     err_bind (sun_rise_set latitude longitude date ''set'' timezone zenith) (\<lambda>set.
     Inr (rise, set)))"

section \<open>Notions of the specification\<close>

text \<open>
  The specification's character classes of a locator string (positions 0 and 1 are
  letters A to R, positions 2 and 3 digits, positions 4 and 5 letters a to x, positions
  6 and 7 digits), the cell that a locator resolves and its centre, and the width of a
  cell at each precision. These follow the words of the specification, not the code.
\<close>

definition is_field_char :: "char \<Rightarrow> bool" where
  "is_field_char c = (py_ord CHR ''A'' \<le> py_ord c \<and> py_ord c \<le> py_ord CHR ''R'')"

definition is_digit_char :: "char \<Rightarrow> bool" where
  "is_digit_char c = (py_ord CHR ''0'' \<le> py_ord c \<and> py_ord c \<le> py_ord CHR ''9'')"

definition is_subsquare_char :: "char \<Rightarrow> bool" where
  "is_subsquare_char c = (py_ord CHR ''a'' \<le> py_ord c \<and> py_ord c \<le> py_ord CHR ''x'')"

definition valid_locator :: "string \<Rightarrow> bool" where
  "valid_locator s =
     (length s \<in> {4, 6, 8}
      \<and> is_field_char (s ! 0) \<and> is_field_char (s ! 1)
      \<and> is_digit_char (s ! 2) \<and> is_digit_char (s ! 3)
      \<and> (6 \<le> length s \<longrightarrow> is_subsquare_char (s ! 4) \<and> is_subsquare_char (s ! 5))
      \<and> (length s = 8 \<longrightarrow> is_digit_char (s ! 6) \<and> is_digit_char (s ! 7)))"

definition locator_corner :: "string \<Rightarrow> real \<times> real" where
  "locator_corner s =
     (LATITUDE_FIELD * of_int (py_ord (s ! 1) - py_ord CHR ''A'')
        + LATITUDE_SQUARE * of_int (py_ord (s ! 3) - py_ord CHR ''0'')
        + (if 6 \<le> length s
           then LATITUDE_SUBSQUARE * of_int (py_ord (s ! 5) - py_ord CHR ''a'') else 0)
        + (if length s = 8
           then LATITUDE_EXTSQUARE * of_int (py_ord (s ! 7) - py_ord CHR ''0'') else 0)
        - 90,
      LONGITUDE_FIELD * of_int (py_ord (s ! 0) - py_ord CHR ''A'')
        + LONGITUDE_SQUARE * of_int (py_ord (s ! 2) - py_ord CHR ''0'')
        + (if 6 \<le> length s
           then LONGITUDE_SUBSQUARE * of_int (py_ord (s ! 4) - py_ord CHR ''a'') else 0)
        + (if length s = 8
           then LONGITUDE_EXTSQUARE * of_int (py_ord (s ! 6) - py_ord CHR ''0'') else 0)
        - 180)"

definition locator_cell_width :: "string \<Rightarrow> real \<times> real" where
  "locator_cell_width s =
     (if length s = 4 then (LATITUDE_SQUARE, LONGITUDE_SQUARE)
      else if length s = 6 then (LATITUDE_SUBSQUARE, LONGITUDE_SUBSQUARE)
      else (LATITUDE_EXTSQUARE, LONGITUDE_EXTSQUARE))"

definition cell_centre :: "string \<Rightarrow> real \<times> real" where
  "cell_centre s =
     (fst (locator_corner s) + fst (locator_cell_width s) / 2,
      snd (locator_corner s) + snd (locator_cell_width s) / 2)"



section \<open>Auxiliary definitions\<close>











section \<open>Properties of the conversion to degrees, minutes and seconds\<close>



text \<open>
  C9. The first statement of \<^verbatim>\<open>to_dms\<close> divides the angle by its absolute value, so
  the angle 0 raises \<^verbatim>\<open>ZeroDivisionError\<close> whatever the style is.
\<close>

theorem to_dms_zero_raises: "to_dms 0 style = Inl ZeroDivisionError"
  by (simp add: to_dms_def py_div_def err_bind_def)




section \<open>Properties of the locator codec\<close>

lemmas grid_consts = LONGITUDE_FIELD_def LATITUDE_FIELD_def LONGITUDE_SQUARE_def
  LATITUDE_SQUARE_def LONGITUDE_SUBSQUARE_def LATITUDE_SUBSQUARE_def
  LONGITUDE_EXTSQUARE_def LATITUDE_EXTSQUARE_def

lemmas char_classes = is_field_char_def is_digit_char_def is_subsquare_char_def






















text \<open>
  C2. (as amended) For every valid locator of length 6 or 8, \<^verbatim>\<open>from_grid_locator\<close> returns the
  centre of the smallest cell that the locator resolves. For a valid locator of length
  4 it returns the centre of the first subsquare of the square: the south-west corner of
  the square plus half a subsquare in each coordinate.
\<close>

theorem from_grid_locator_centre:
  assumes "valid_locator s"
  shows "from_grid_locator s =
           Inr (if length s = 4
                then (fst (locator_corner s) + LATITUDE_SUBSQUARE / 2,
                      snd (locator_corner s) + LONGITUDE_SUBSQUARE / 2)
                else cell_centre s)"
proof -
  have len: "length s = 4 \<or> length s = 6 \<or> length s = 8"
    using assms by (simp add: valid_locator_def)
  have c: "is_field_char (s ! 0)" "is_field_char (s ! 1)" "is_digit_char (s ! 2)"
    "is_digit_char (s ! 3)"
    using assms by (simp_all add: valid_locator_def)
  from len show ?thesis
  proof (elim disjE)
    assume n: "length s = 4"
    show ?thesis using c
      by (simp add: from_grid_locator_def n char_classes py_int_char_def err_bind_def
          locator_corner_def py_ord_def grid_consts)
  next
    assume n: "length s = 6"
    then have "is_subsquare_char (s ! 4)" "is_subsquare_char (s ! 5)"
      using assms by (simp_all add: valid_locator_def)
    then show ?thesis using c
      by (simp add: from_grid_locator_def n char_classes py_int_char_def err_bind_def
          locator_corner_def cell_centre_def locator_cell_width_def py_lower_def
          py_ord_def grid_consts)
  next
    assume n: "length s = 8"
    then have "is_subsquare_char (s ! 4)" "is_subsquare_char (s ! 5)"
      "is_digit_char (s ! 6)" "is_digit_char (s ! 7)"
      using assms by (simp_all add: valid_locator_def)
    then show ?thesis using c
      by (simp add: from_grid_locator_def n char_classes py_int_char_def err_bind_def
          locator_corner_def cell_centre_def locator_cell_width_def py_lower_def
          py_ord_def grid_consts)
  qed
qed

theorem from_grid_locator_centre_witness:
  "valid_locator ''BL11bh16'' \<and> from_grid_locator ''BL11bh16'' = Inr (cell_centre ''BL11bh16'')
   \<and> cell_centre ''BL11bh16'' = (3411 / 160, - 37897 / 240)"
proof -
  have v: "valid_locator ''BL11bh16''"
    by (simp add: valid_locator_def char_classes py_ord_def)
  have "cell_centre ''BL11bh16'' = (3411 / 160, - 37897 / 240)"
    by (simp add: cell_centre_def locator_corner_def locator_cell_width_def py_ord_def grid_consts)
  then show ?thesis using v from_grid_locator_centre [OF v] by simp
qed

text \<open>
  The claim C2 as stated fails for a locator of length 4: the result for
  \<^verbatim>\<open>"IO92"\<close> is not the centre of that square.
\<close>

theorem from_grid_locator_square_not_centre:
  "valid_locator ''IO92'' \<and> from_grid_locator ''IO92'' = Inr (2497 / 48, - 47 / 24)
   \<and> cell_centre ''IO92'' = (105 / 2, - 1)
   \<and> from_grid_locator ''IO92'' \<noteq> Inr (cell_centre ''IO92'')"
proof -
  have v: "valid_locator ''IO92''"
    by (simp add: valid_locator_def char_classes py_ord_def)
  have d: "from_grid_locator ''IO92'' = Inr (2497 / 48, - 47 / 24)"
    by (simp add: from_grid_locator_def py_int_char_def err_bind_def py_ord_def grid_consts)
  have c: "cell_centre ''IO92'' = (105 / 2, - 1)"
    by (simp add: cell_centre_def locator_corner_def locator_cell_width_def py_ord_def grid_consts)
  show ?thesis using v d c by simp
qed






section \<open>Properties of the solar calculator\<close>













section \<open>Properties of the ISO 6709 functions\<close>

lemmas iso_eval = from_iso6709_def iso6709_match_def match_group_def at_end_def is_sign_def
  is_digit_or_point_def is_digit_def py_ord_def latitude_field_def longitude_field_def
  altitude_field_def split_point_head_def py_float_def digits_value_def err_bind_def

lemmas fmt_eval = to_iso6709_def coordinates_text_def format_i_def zero_pad_def py_int_def
  py_chr_def str_nat.simps char_of_eq_iff err_bind_def

text \<open>
  C6. (as amended) When the pattern matches, a latitude whose text before the first point does not
  have 3, 5 or 7 characters raises the error that names the latitude; a longitude whose
  text before the first point does not have 4, 6 or 8 characters raises the error that
  names the longitude, provided that the latitude has been decoded; and a field with one
  of these counts is decoded as degrees, as degrees and minutes / 60, or as degrees,
  minutes / 60 and seconds / 3600.
\<close>

theorem from_iso6709_fields:
  assumes "iso6709_match coordinates = Some (latitude, longitude, altitude)"
  shows "(length (split_point_head latitude) \<notin> {3, 5, 7}
            \<longrightarrow> from_iso6709 coordinates = Inl (IncorrectFormatLatitude latitude))
       \<and> (length (split_point_head longitude) \<notin> {4, 6, 8} \<and> latitude_field latitude = Inr lat
            \<longrightarrow> from_iso6709 coordinates = Inl (IncorrectFormatLongitude longitude))
       \<and> (length (split_point_head latitude) = 3 \<and> py_float latitude = Inr d
            \<longrightarrow> latitude_field latitude = Inr d)
       \<and> (length (split_point_head latitude) = 5 \<and> py_float (take 3 latitude) = Inr d
            \<and> py_float (drop 3 latitude) = Inr m
            \<longrightarrow> latitude_field latitude = Inr (to_dd d m 0))
       \<and> (length (split_point_head latitude) = 7 \<and> py_float (take 3 latitude) = Inr d
            \<and> py_float (take 2 (drop 3 latitude)) = Inr m \<and> py_float (drop 5 latitude) = Inr s
            \<longrightarrow> latitude_field latitude = Inr (to_dd d m s))
       \<and> (length (split_point_head longitude) = 4 \<and> py_float longitude = Inr d
            \<longrightarrow> longitude_field longitude = Inr d)
       \<and> (length (split_point_head longitude) = 6 \<and> py_float (take 4 longitude) = Inr d
            \<and> py_float (drop 4 longitude) = Inr m
            \<longrightarrow> longitude_field longitude = Inr (to_dd d m 0))
       \<and> (length (split_point_head longitude) = 8 \<and> py_float (take 4 longitude) = Inr d
            \<and> py_float (take 2 (drop 4 longitude)) = Inr m \<and> py_float (drop 6 longitude) = Inr s
            \<longrightarrow> longitude_field longitude = Inr (to_dd d m s))
       \<and> (latitude_field latitude = Inr lat \<and> longitude_field longitude = Inr lon
            \<and> altitude_field altitude = Inr alt
            \<longrightarrow> from_iso6709 coordinates = Inr (lat, lon, alt))"
  using assms
  by (simp add: from_iso6709_def latitude_field_def longitude_field_def err_bind_def to_dd_def)

theorem from_iso6709_fields_witness:
  "iso6709_match ''+35.658632+1/'' = Some (''+35.658632'', ''+1'', None)
   \<and> length (split_point_head ''+1'') \<notin> {4, 6, 8}
   \<and> latitude_field ''+35.658632'' = Inr (35658632 / 1000000)
   \<and> from_iso6709 ''+35.658632+1/'' = Inl (IncorrectFormatLongitude ''+1'')
   \<and> iso6709_match ''+4852+00220/'' = Some (''+4852'', ''+00220'', None)
   \<and> latitude_field ''+4852'' = Inr (to_dd 48 52 0)
   \<and> longitude_field ''+00220'' = Inr (to_dd 2 20 0)
   \<and> from_iso6709 ''+4852+00220/'' = Inr (to_dd 48 52 0, to_dd 2 20 0, None)"
proof -
  have m1: "iso6709_match ''+35.658632+1/'' = Some (''+35.658632'', ''+1'', None)"
    by (simp add: iso_eval)
  have h1: "length (split_point_head ''+1'') \<notin> {4, 6, 8}"
    by (simp add: split_point_head_def)
  have l1: "latitude_field ''+35.658632'' = Inr (35658632 / 1000000)"
    by (simp add: iso_eval)
  have r1: "from_iso6709 ''+35.658632+1/'' = Inl (IncorrectFormatLongitude ''+1'')"
    using from_iso6709_fields [OF m1, of "35658632 / 1000000"] h1 l1 by blast
  have m2: "iso6709_match ''+4852+00220/'' = Some (''+4852'', ''+00220'', None)"
    by (simp add: iso_eval)
  have f2: "length (split_point_head ''+4852'') = 5" "py_float (take 3 ''+4852'') = Inr 48"
    "py_float (drop 3 ''+4852'') = Inr 52"
    "length (split_point_head ''+00220'') = 6" "py_float (take 4 ''+00220'') = Inr 2"
    "py_float (drop 4 ''+00220'') = Inr 20" "altitude_field None = Inr None"
    by (simp_all add: iso_eval)
  have l2: "latitude_field ''+4852'' = Inr (to_dd 48 52 0)"
    using from_iso6709_fields [OF m2, of _ 48 52] f2 by blast
  have g2: "longitude_field ''+00220'' = Inr (to_dd 2 20 0)"
    using from_iso6709_fields [OF m2, of _ 2 20] f2 by blast
  have r2: "from_iso6709 ''+4852+00220/'' = Inr (to_dd 48 52 0, to_dd 2 20 0, None)"
    using from_iso6709_fields [OF m2, of "to_dd 48 52 0" _ _ _ "to_dd 2 20 0" None] l2 g2 f2(7)
    by blast
  show ?thesis using m1 h1 l1 r1 m2 l2 g2 r2 by blast
qed

text \<open>
  The claim C6 as stated fails when the latitude has one of the counts but is not a
  number: the error of the conversion is raised before the longitude is looked at.
\<close>

theorem from_iso6709_longitude_count_unnamed:
  "iso6709_match ''+48.5.5+1/'' = Some (''+48.5.5'', ''+1'', None)
   \<and> length (split_point_head ''+1'') \<notin> {4, 6, 8}
   \<and> from_iso6709 ''+48.5.5+1/'' = Inl (InvalidFloatLiteral ''+48.5.5'')
   \<and> from_iso6709 ''+48.5.5+1/'' \<noteq> Inl (IncorrectFormatLongitude ''+1'')"
  by (simp add: iso_eval)

lemma to_iso6709_terminator:
  assumes "to_iso6709 latitude longitude altitude format precision = Inr text"
  shows "text \<noteq> [] \<and> last text = CHR ''/''"
proof (cases "coordinates_text latitude longitude format precision")
  case (Inl e)
  then show ?thesis using assms by (simp add: to_iso6709_def err_bind_def)
next
  case (Inr t)
  then show ?thesis using assms by (auto simp add: to_iso6709_def err_bind_def Let_def)
qed

lemma to_iso6709_altitude_nonzero:
  assumes "to_iso6709 latitude longitude (Some a) format precision = Inr text" "a \<noteq> 0"
  shows "\<exists>head. to_iso6709 latitude longitude None format precision = Inr (head @ ''/'')
           \<and> text = head @ (if of_int (py_int a) = a then format_i True 0 (py_int a)
                            else format_f 0 3 a) @ ''/''"
proof (cases "coordinates_text latitude longitude format precision")
  case (Inl e)
  then show ?thesis using assms by (simp add: to_iso6709_def err_bind_def)
next
  case (Inr t)
  then show ?thesis using assms by (auto simp add: to_iso6709_def err_bind_def Let_def)
qed

text \<open>
  C8. An altitude of 0 that is passed to \<^verbatim>\<open>to_iso6709\<close> is not appended: the result is the
  one for no altitude, although \<^verbatim>\<open>from_iso6709\<close> reads the altitude 0 from a string.
\<close>

theorem to_iso6709_zero_altitude:
  "to_iso6709 0 (- 25) (Some 0) ''d'' 4 = Inr ''+00-025/''
   \<and> to_iso6709 0 (- 25) None ''d'' 4 = Inr ''+00-025/''
   \<and> to_iso6709 0 (- 25) (Some 8850) ''d'' 4 = Inr ''+00-025+8850/''
   \<and> from_iso6709 ''+00-025+0/'' = Inr (0, - 25, Some 0)"
proof -
  have "to_iso6709 0 (- 25) (Some 0) ''d'' 4 = Inr ''+00-025/''"
    by (simp add: fmt_eval)
  moreover have "to_iso6709 0 (- 25) None ''d'' 4 = Inr ''+00-025/''"
    by (simp add: fmt_eval)
  moreover have "to_iso6709 0 (- 25) (Some 8850) ''d'' 4 = Inr ''+00-025+8850/''"
    by (simp add: fmt_eval)
  moreover have "from_iso6709 ''+00-025+0/'' = Inr (0, - 25, Some 0)"
    by (simp add: iso_eval)
  ultimately show ?thesis by simp
qed

end
